theory Spec2Isabelle
  imports Complex_Main "HOL-Library.Word" "HOL-Library.AList"
begin

section \<open>Brain-tumor MRI classification service: a model of app/app.py\<close>

text \<open>
  The service is one Python module. Its functions are embedded here as HOL functions:
  the module-level dictionary \<open>prediction_stats\<close> becomes a record that is passed in and
  returned, a raised exception becomes \<open>Inl e\<close> of a sum type, and the libraries the module
  calls (the image codec, the array library, the trained network, the clock and the random
  number generator) are parameters, collected in the record \<open>env\<close> or passed per call.
  Python integers are \<open>int\<close>. Floating-point numbers are modelled by real numbers; the one
  place where the module itself does floating-point arithmetic (the division by 255.0)
  goes through a rounding function that is a parameter.
\<close>

subsection \<open>Exceptions\<close>

datatype exn =
    IndexError string
  | KeyError string
  | ValueError string
  | TypeError string
  | LibraryError string

text \<open>
  \<open>str_exn e\<close> is Python's \<open>str(e)\<close>. For a \<open>KeyError\<close> it is the repr of the key,
  written here with plain quotes around the key (exact for keys without quotes or escapes).
\<close>

fun str_exn :: "exn \<Rightarrow> string" where
  "str_exn (IndexError m) = m"
| "str_exn (KeyError k) = [CHR 0x27] @ k @ [CHR 0x27]"
| "str_exn (ValueError m) = m"
| "str_exn (TypeError m) = m"
| "str_exn (LibraryError m) = m"

subsection \<open>Module constants\<close>

definition IMG_SIZE :: "nat \<times> nat" where
  "IMG_SIZE = (224, 224)"

definition CLASS_NAMES :: "string list" where
  "CLASS_NAMES = [''glioma'', ''meningioma'', ''notumor'', ''pituitary'']"

record class_description =
  name :: string
  description :: string
  severity :: string
  color :: string
  icon :: string

definition CLASS_DESCRIPTIONS :: "(string \<times> class_description) list" where
  "CLASS_DESCRIPTIONS =
    [(''glioma'',
        \<lparr>name = ''Glioma'',
         description = ''Tumor arising from glial cells in the brain or spinal cord.'',
         severity = ''High'', color = ''#ef4444'', icon = ''fas fa-brain''\<rparr>),
     (''meningioma'',
        \<lparr>name = ''Meningioma'',
         description = ''Typically benign tumor arising from the meninges surrounding the brain.'',
         severity = ''Medium'', color = ''#f59e0b'', icon = ''fas fa-brain''\<rparr>),
     (''notumor'',
        \<lparr>name = ''No Tumor'',
         description = ''Normal brain tissue with no evidence of tumor.'',
         severity = ''Normal'', color = ''#10b981'', icon = ''fas fa-check-circle''\<rparr>),
     (''pituitary'',
        \<lparr>name = ''Pituitary'',
         description = ''Tumor developing in the pituitary gland at the base of the brain.'',
         severity = ''Medium'', color = ''#3b82f6'', icon = ''fas fa-brain''\<rparr>)]"

subsection \<open>Python lists and dictionaries\<close>

text \<open>
  \<open>list_index xs i\<close> is \<open>xs[i]\<close> for a non-negative index; \<open>dict_get d k\<close> is \<open>d[k]\<close>
  for a dictionary kept as an association list in insertion order. A dictionary store
  \<open>d[k] = v\<close> is \<open>AList.update k v d\<close>: it replaces the value in place, or appends the key.
\<close>

definition list_index :: "'a list \<Rightarrow> nat \<Rightarrow> exn + 'a" where
  "list_index xs i =
     (if i < length xs then Inr (xs ! i) else Inl (IndexError ''list index out of range''))"

definition dict_get :: "(string \<times> 'v) list \<Rightarrow> string \<Rightarrow> exn + 'v" where
  "dict_get d k = (case map_of d k of None \<Rightarrow> Inl (KeyError k) | Some v \<Rightarrow> Inr v)"

subsection \<open>Statistics\<close>

text \<open>
  A \<open>datetime\<close> is the ordinal of its calendar day (Python's \<open>toordinal\<close>, which orders
  dates as \<open>date.__gt__\<close> does) and the microsecond within the day.
\<close>

record datetime =
  date :: int
  microsecond_of_day :: nat

record statistics =
  total_predictions :: int
  predictions_today :: int
  last_prediction_time :: "datetime option"
  class_distribution :: "(string \<times> int) list"

definition initial_stats :: statistics where
  "initial_stats =
     \<lparr>total_predictions = 0, predictions_today = 0, last_prediction_time = None,
      class_distribution = map (\<lambda>class_name. (class_name, 0)) CLASS_NAMES\<rparr>"

text \<open>
  \<open>update_statistics\<close>: \<open>now\<close> is what \<open>datetime.now()\<close> returns in the call. The
  function returns nothing; the first component says whether it raised. The counters are
  written before the class histogram is read, so they stay written when that read raises.
\<close>

definition update_statistics ::
  "datetime \<Rightarrow> string \<Rightarrow> statistics \<Rightarrow> (exn + unit) \<times> statistics" where
  "update_statistics now predicted_class s =
     (let s1 = s\<lparr>total_predictions := total_predictions s + 1\<rparr>;
          s2 = (case last_prediction_time s1 of
                  Some last_time \<Rightarrow>
                    (let last_date = date last_time in
                     if date now > last_date
                     then s1\<lparr>predictions_today := 1\<rparr>
                     else s1\<lparr>predictions_today := predictions_today s1 + 1\<rparr>)
                | None \<Rightarrow> s1\<lparr>predictions_today := 1\<rparr>);
          s3 = s2\<lparr>last_prediction_time := Some now\<rparr>
      in case dict_get (class_distribution s3) predicted_class of
           Inl e \<Rightarrow> (Inl e, s3)
         | Inr n \<Rightarrow>
             (Inr (),
              s3\<lparr>class_distribution :=
                   AList.update predicted_class (n + 1) (class_distribution s3)\<rparr>))"

text \<open>A run of calls, one after the other, each with its own clock reading.\<close>

fun update_calls :: "(datetime \<times> string) list \<Rightarrow> statistics \<Rightarrow> statistics" where
  "update_calls [] s = s"
| "update_calls ((now, predicted_class) # calls) s =
     update_calls calls (snd (update_statistics now predicted_class s))"

definition class_total :: "statistics \<Rightarrow> int" where
  "class_total s = sum_list (map snd (class_distribution s))"

subsection \<open>File names\<close>

text \<open>
  Strings are byte strings (UTF-8). \<open>lower\<close> lowers the ASCII letters; Python's
  \<open>str.lower\<close> maps no character outside ASCII to a letter of an allowed extension.
  \<open>rsplit1 sep s\<close> is \<open>s.rsplit(sep, 1)\<close>.
\<close>

definition lower_char :: "char \<Rightarrow> char" where
  "lower_char c =
     (case map_of (zip ''ABCDEFGHIJKLMNOPQRSTUVWXYZ'' ''abcdefghijklmnopqrstuvwxyz'') c of
        Some l \<Rightarrow> l
      | None \<Rightarrow> c)"

definition lower :: "string \<Rightarrow> string" where
  "lower s = map lower_char s"

definition rsplit1 :: "char \<Rightarrow> string \<Rightarrow> string list" where
  "rsplit1 sep s =
     (if sep \<in> set s
      then [rev (tl (dropWhile (\<lambda>c. c \<noteq> sep) (rev s))), rev (takeWhile (\<lambda>c. c \<noteq> sep) (rev s))]
      else [s])"

definition allowed_extensions :: "string set" where
  "allowed_extensions = {''png'', ''jpg'', ''jpeg'', ''gif'', ''bmp'', ''tiff''}"

definition allowed_file :: "string \<Rightarrow> exn + bool" where
  "allowed_file filename =
     (if CHR ''.'' \<in> set filename
      then (case list_index (rsplit1 CHR ''.'' filename) 1 of
              Inl e \<Rightarrow> Inl e
            | Inr ext \<Rightarrow> Inr (lower ext \<in> allowed_extensions))
      else Inr False)"

text \<open>
  The specification's wording of the same test: the file name has an extension (the text
  after its last dot) that equals one of the six extensions when case is ignored.
\<close>

definition has_allowed_extension :: "string \<Rightarrow> bool" where
  "has_allowed_extension filename =
     (\<exists>base ext. filename = base @ CHR ''.'' # ext \<and> CHR ''.'' \<notin> set ext \<and>
        (\<exists>e \<in> allowed_extensions. lower ext = lower e))"

subsection \<open>Images and arrays\<close>

text \<open>
  An image object of the codec has pixel data in its own mode, a size (width, height) and,
  since the codec reads the pixel data lazily, possibly an error that the first operation
  needing the data raises. Pixel data of mode RGB are three 8-bit bands; pixel data of
  another mode map a column, a row and a band number to the value of that band. The modes
  other than RGB, their names and their numbers of bands are those of the codec's
  documentation.
\<close>

type_synonym rgb = "8 word \<times> 8 word \<times> 8 word"

datatype other_mode =
    Mode_1 | Mode_L | Mode_P | Mode_RGBA | Mode_CMYK | Mode_YCbCr | Mode_LAB | Mode_HSV
  | Mode_I | Mode_F | Mode_LA | Mode_PA | Mode_RGBX | Mode_RGBa | Mode_La
  | Mode_I16 | Mode_I16L | Mode_I16B | Mode_I16N

fun mode_name :: "other_mode \<Rightarrow> string" where
  "mode_name Mode_1 = ''1''"
| "mode_name Mode_L = ''L''"
| "mode_name Mode_P = ''P''"
| "mode_name Mode_RGBA = ''RGBA''"
| "mode_name Mode_CMYK = ''CMYK''"
| "mode_name Mode_YCbCr = ''YCbCr''"
| "mode_name Mode_LAB = ''LAB''"
| "mode_name Mode_HSV = ''HSV''"
| "mode_name Mode_I = ''I''"
| "mode_name Mode_F = ''F''"
| "mode_name Mode_LA = ''LA''"
| "mode_name Mode_PA = ''PA''"
| "mode_name Mode_RGBX = ''RGBX''"
| "mode_name Mode_RGBa = ''RGBa''"
| "mode_name Mode_La = ''La''"
| "mode_name Mode_I16 = ''I;16''"
| "mode_name Mode_I16L = ''I;16L''"
| "mode_name Mode_I16B = ''I;16B''"
| "mode_name Mode_I16N = ''I;16N''"

fun bands :: "other_mode \<Rightarrow> nat" where
  "bands Mode_1 = 1"
| "bands Mode_L = 1"
| "bands Mode_P = 1"
| "bands Mode_RGBA = 4"
| "bands Mode_CMYK = 4"
| "bands Mode_YCbCr = 3"
| "bands Mode_LAB = 3"
| "bands Mode_HSV = 3"
| "bands Mode_I = 1"
| "bands Mode_F = 1"
| "bands Mode_LA = 2"
| "bands Mode_PA = 2"
| "bands Mode_RGBX = 4"
| "bands Mode_RGBa = 4"
| "bands Mode_La = 2"
| "bands Mode_I16 = 1"
| "bands Mode_I16L = 1"
| "bands Mode_I16B = 1"
| "bands Mode_I16N = 1"

datatype pixels =
    RGB "nat \<Rightarrow> nat \<Rightarrow> rgb"
  | NonRGB other_mode "nat \<Rightarrow> nat \<Rightarrow> nat \<Rightarrow> real"

record image =
  pixels :: pixels
  size_wh :: "nat \<times> nat"
  load_error :: "exn option"

definition mode :: "image \<Rightarrow> string" where
  "mode img = (case pixels img of RGB px \<Rightarrow> ''RGB'' | NonRGB m px \<Rightarrow> mode_name m)"

text \<open>Reading the pixel data, as every operation on them does first.\<close>

definition load :: "image \<Rightarrow> exn + pixels" where
  "load img = (case load_error img of Some e \<Rightarrow> Inl e | None \<Rightarrow> Inr (pixels img))"

text \<open>An array of any rank: a number, or a list of arrays.\<close>

datatype 'a arr = Item 'a | Array "'a arr list"

datatype np_dtype = UInt8 | Float32 | Float64

record ndarray =
  dtype :: np_dtype
  items :: "real arr"

fun has_shape :: "nat list \<Rightarrow> 'a arr \<Rightarrow> bool" where
  "has_shape [] (Item v) = True"
| "has_shape (n # ns) (Array xs) = (length xs = n \<and> (\<forall>x \<in> set xs. has_shape ns x))"
| "has_shape [] (Array xs) = False"
| "has_shape (n # ns) (Item v) = False"

datatype predictions = Rank1 "real list" | Rank2 "real list list"

datatype probs = Scalar real | Vector "real list"

text \<open>
  The libraries, as parameters. \<open>model\<close> is the module's global: \<open>None\<close> when loading
  failed, else the network's \<open>predict\<close>, which may raise. Of its results the arrays of
  rank 1 and 2 are modelled. \<open>softmax\<close> is \<open>tf.nn.softmax\<close>. \<open>to_rgb\<close> is the codec's
  conversion of pixel data of another mode to RGB; the specification takes it to be total
  once the image is decoded, and so does its type here. \<open>resample\<close> and
  \<open>resample_other\<close> are the codec's resizing filter (from the old size and pixel data to
  the pixel data of the new size), \<open>float32_round\<close> the rounding of a real number to a
  32-bit float, \<open>image_open\<close> and \<open>image_verify\<close> the codec's decoding and integrity
  check of an uploaded byte stream, \<open>thumbnail\<close> and \<open>png_base64\<close> the downscaling and
  the base64 text of the PNG encoding.
\<close>

record env =
  model :: "(ndarray \<Rightarrow> exn + predictions) option"
  softmax :: "real list \<Rightarrow> real list"
  to_rgb :: "other_mode \<Rightarrow> (nat \<Rightarrow> nat \<Rightarrow> nat \<Rightarrow> real) \<Rightarrow> nat \<Rightarrow> nat \<Rightarrow> rgb"
  resample :: "nat \<times> nat \<Rightarrow> (nat \<Rightarrow> nat \<Rightarrow> rgb) \<Rightarrow> nat \<times> nat \<Rightarrow> (nat \<Rightarrow> nat \<Rightarrow> rgb)"
  resample_other ::
    "other_mode \<Rightarrow> nat \<times> nat \<Rightarrow> (nat \<Rightarrow> nat \<Rightarrow> nat \<Rightarrow> real) \<Rightarrow> nat \<times> nat \<Rightarrow>
       (nat \<Rightarrow> nat \<Rightarrow> nat \<Rightarrow> real)"
  float32_round :: "real \<Rightarrow> real"
  image_open :: "8 word list \<Rightarrow> exn + image"
  image_verify :: "8 word list \<Rightarrow> exn option"
  thumbnail :: "image \<Rightarrow> nat \<times> nat \<Rightarrow> exn + image"
  png_base64 :: "image \<Rightarrow> exn + string"

text \<open>\<open>image.convert('RGB')\<close>: a new image of mode RGB and the same size.\<close>

definition convert_RGB :: "env \<Rightarrow> image \<Rightarrow> exn + image" where
  "convert_RGB env img =
     (case load img of
        Inl e \<Rightarrow> Inl e
      | Inr (RGB px) \<Rightarrow> Inr img
      | Inr (NonRGB m px) \<Rightarrow> Inr (img\<lparr>pixels := RGB (to_rgb env m px)\<rparr>))"

text \<open>\<open>image.resize(size)\<close>: a new image of the same mode and the given size.\<close>

definition resize :: "env \<Rightarrow> image \<Rightarrow> nat \<times> nat \<Rightarrow> exn + image" where
  "resize env img sz =
     (case load img of
        Inl e \<Rightarrow> Inl e
      | Inr (RGB px) \<Rightarrow>
          Inr (img\<lparr>pixels := RGB (resample env (size_wh img) px sz), size_wh := sz\<rparr>)
      | Inr (NonRGB m px) \<Rightarrow>
          Inr (img\<lparr>pixels := NonRGB m (resample_other env m (size_wh img) px sz),
                   size_wh := sz\<rparr>))"

text \<open>
  \<open>np.array(image, dtype=np.float32)\<close>: height by width, and a third axis with the bands
  when the mode has more than one. An 8-bit value is exactly a 32-bit float.
\<close>

fun pixel_item :: "pixels \<Rightarrow> nat \<Rightarrow> nat \<Rightarrow> real arr" where
  "pixel_item (RGB px) x y =
     (case px x y of
        (r, g, b) \<Rightarrow> Array [Item (real (unat r)), Item (real (unat g)), Item (real (unat b))])"
| "pixel_item (NonRGB m px) x y =
     (if bands m = 1 then Item (px x y 0)
      else Array (map (\<lambda>k. Item (px x y k)) [0..<bands m]))"

definition np_array_float32 :: "image \<Rightarrow> exn + ndarray" where
  "np_array_float32 img =
     (case load img of
        Inl e \<Rightarrow> Inl e
      | Inr p \<Rightarrow>
          Inr \<lparr>dtype = Float32,
               items =
                 Array (map (\<lambda>y. Array (map (\<lambda>x. pixel_item p x y) [0..<fst (size_wh img)]))
                            [0..<snd (size_wh img)])\<rparr>)"

text \<open>
  \<open>img_array / 255.0\<close> on a float32 array: each quotient rounded to a 32-bit float, the
  dtype kept. \<open>np.expand_dims(img_array, axis=0)\<close>: one more axis, of length 1, in front.
\<close>

definition np_divide :: "env \<Rightarrow> ndarray \<Rightarrow> real \<Rightarrow> ndarray" where
  "np_divide env a c = a\<lparr>items := map_arr (\<lambda>v. float32_round env (v / c)) (items a)\<rparr>"

definition expand_dims0 :: "ndarray \<Rightarrow> ndarray" where
  "expand_dims0 a = a\<lparr>items := Array [items a]\<rparr>"

definition preprocess_for_inference :: "env \<Rightarrow> image \<Rightarrow> exn + ndarray" where
  "preprocess_for_inference env image0 =
     (case (if mode image0 \<noteq> ''RGB'' then convert_RGB env image0 else Inr image0) of
        Inl e \<Rightarrow> Inl e
      | Inr image1 \<Rightarrow>
          (case resize env image1 IMG_SIZE of
             Inl e \<Rightarrow> Inl e
           | Inr image2 \<Rightarrow>
               (case np_array_float32 image2 of
                  Inl e \<Rightarrow> Inl e
                | Inr img_array \<Rightarrow> Inr (expand_dims0 (np_divide env img_array 255)))))"

subsection \<open>The predictor\<close>

definition digit_char :: "nat \<Rightarrow> char" where
  "digit_char n = ''0123456789'' ! n"

fun str_nat :: "nat \<Rightarrow> string" where
  "str_nat n = (if n < 10 then [digit_char n] else str_nat (n div 10) @ [digit_char (n mod 10)])"

definition np_first :: "'a list \<Rightarrow> exn + 'a" where
  "np_first xs =
     (case xs of
        [] \<Rightarrow> Inl (IndexError ''index 0 is out of bounds for axis 0 with size 0'')
      | x # _ \<Rightarrow> Inr x)"

primrec index_of :: "'a \<Rightarrow> 'a list \<Rightarrow> nat" where
  "index_of x [] = 0"
| "index_of x (y # ys) = (if x = y then 0 else Suc (index_of x ys))"

text \<open>\<open>np.argmax\<close>: the index of the first greatest element; 0 for a scalar.\<close>

fun np_argmax :: "probs \<Rightarrow> exn + nat" where
  "np_argmax (Scalar x) = Inr 0"
| "np_argmax (Vector []) = Inl (ValueError ''attempt to get argmax of an empty sequence'')"
| "np_argmax (Vector (x # xs)) = Inr (index_of (fold max xs x) (x # xs))"

fun np_getitem :: "probs \<Rightarrow> nat \<Rightarrow> exn + real" where
  "np_getitem (Scalar x) i = Inl (IndexError ''invalid index to scalar variable.'')"
| "np_getitem (Vector xs) i =
     (if i < length xs then Inr (xs ! i)
      else Inl (IndexError (''index '' @ str_nat i @ '' is out of bounds for axis 0 with size ''
                              @ str_nat (length xs))))"

record prob_entry =
  probability :: real
  percentage :: real
  info :: class_description

record prediction_result =
  predicted_class :: string
  confidence :: real
  all_probabilities :: "(string \<times> prob_entry) list"
  class_info :: class_description

text \<open>
  The three lines both branches of \<open>predict_image\<close> share: the index of the greatest
  probability, the class name at that index, the probability at that index.
\<close>

definition select_top :: "probs \<Rightarrow> exn + (nat \<times> string \<times> real)" where
  "select_top ps =
     (case np_argmax ps of
        Inl e \<Rightarrow> Inl e
      | Inr predicted_idx \<Rightarrow>
          (case list_index CLASS_NAMES predicted_idx of
             Inl e \<Rightarrow> Inl e
           | Inr cls \<Rightarrow>
               (case np_getitem ps predicted_idx of
                  Inl e \<Rightarrow> Inl e
                | Inr conf \<Rightarrow> Inr (predicted_idx, cls, conf))))"

text \<open>
  The probabilities of a call: without a model, the vector \<open>draw\<close> that
  \<open>np.random.dirichlet(np.ones(4), size=1)[0]\<close> returns; with a model, the softmax of
  the first row of a rank-2 result, or the first element of a rank-1 result (a scalar).
\<close>

definition dirichlet_vector :: "real \<times> real \<times> real \<times> real \<Rightarrow> real list" where
  "dirichlet_vector draw = (case draw of (a, b, c, d) \<Rightarrow> [a, b, c, d])"

definition compute_probs :: "env \<Rightarrow> real \<times> real \<times> real \<times> real \<Rightarrow> image \<Rightarrow> exn + probs" where
  "compute_probs env draw image0 =
     (case model env of
        None \<Rightarrow> Inr (Vector (dirichlet_vector draw))
      | Some predict_fn \<Rightarrow>
          (case preprocess_for_inference env image0 of
             Inl e \<Rightarrow> Inl e
           | Inr img_array \<Rightarrow>
               (case predict_fn img_array of
                  Inl e \<Rightarrow> Inl e
                | Inr (Rank2 rows) \<Rightarrow>
                    (case np_first rows of
                       Inl e \<Rightarrow> Inl e
                     | Inr row \<Rightarrow> Inr (Vector (softmax env row)))
                | Inr (Rank1 xs) \<Rightarrow>
                    (case np_first xs of
                       Inl e \<Rightarrow> Inl e
                     | Inr x \<Rightarrow> Inr (Scalar x)))))"

text \<open>The dictionary comprehension over \<open>enumerate(CLASS_NAMES)\<close>.\<close>

fun build_probabilities :: "probs \<Rightarrow> (nat \<times> string) list \<Rightarrow> exn + (string \<times> prob_entry) list" where
  "build_probabilities ps [] = Inr []"
| "build_probabilities ps ((i, class_name) # rest) =
     (case np_getitem ps i of
        Inl e \<Rightarrow> Inl e
      | Inr p \<Rightarrow>
          (case dict_get CLASS_DESCRIPTIONS class_name of
             Inl e \<Rightarrow> Inl e
           | Inr d \<Rightarrow>
               (case build_probabilities ps rest of
                  Inl e \<Rightarrow> Inl e
                | Inr entries \<Rightarrow>
                    Inr ((class_name, \<lparr>probability = p, percentage = p * 100, info = d\<rparr>)
                          # entries))))"

definition build_result :: "probs \<Rightarrow> string \<Rightarrow> real \<Rightarrow> exn + prediction_result" where
  "build_result ps cls conf =
     (case build_probabilities ps (enumerate 0 CLASS_NAMES) of
        Inl e \<Rightarrow> Inl e
      | Inr entries \<Rightarrow>
          (case dict_get CLASS_DESCRIPTIONS cls of
             Inl e \<Rightarrow> Inl e
           | Inr d \<Rightarrow>
               Inr \<lparr>predicted_class = cls, confidence = conf,
                    all_probabilities = entries, class_info = d\<rparr>))"

text \<open>
  \<open>predict_image\<close> returns the pair \<open>(result, error)\<close>, \<open>None\<close> for Python's \<open>None\<close>,
  and the statistics it leaves. \<open>now\<close> is the clock reading of its call of
  \<open>update_statistics\<close>. Every exception ends in the handler of the \<open>try\<close>.
\<close>

definition predict_image ::
  "env \<Rightarrow> real \<times> real \<times> real \<times> real \<Rightarrow> datetime \<Rightarrow> image \<Rightarrow> statistics \<Rightarrow>
     (prediction_result option \<times> string option) \<times> statistics" where
  "predict_image env draw now image0 s =
     (case compute_probs env draw image0 of
        Inl e \<Rightarrow> ((None, Some (str_exn e)), s)
      | Inr ps \<Rightarrow>
          (case select_top ps of
             Inl e \<Rightarrow> ((None, Some (str_exn e)), s)
           | Inr (predicted_idx, cls, conf) \<Rightarrow>
               (case update_statistics now cls s of
                  (Inl e, s') \<Rightarrow> ((None, Some (str_exn e)), s')
                | (Inr u, s') \<Rightarrow>
                    (case build_result ps cls conf of
                       Inl e \<Rightarrow> ((None, Some (str_exn e)), s')
                     | Inr r \<Rightarrow> ((Some r, None), s')))))"

text \<open>The probabilities a result reports, and "sums to 1 within 1e-5".\<close>

definition reported_probabilities :: "prediction_result \<Rightarrow> real list" where
  "reported_probabilities r = map (\<lambda>entry. probability (snd entry)) (all_probabilities r)"


text \<open>A run of predictions, one after the other: the results, and the statistics left.\<close>

fun predict_images ::
  "env \<Rightarrow> ((real \<times> real \<times> real \<times> real) \<times> datetime \<times> image) list \<Rightarrow> statistics \<Rightarrow>
     (prediction_result option \<times> string option) list \<times> statistics" where
  "predict_images env [] s = ([], s)"
| "predict_images env ((draw, now, image0) # calls) s =
     (case predict_image env draw now image0 s of
        (out, s') \<Rightarrow> (case predict_images env calls s' of (outs, s'') \<Rightarrow> (out # outs, s'')))"

subsection \<open>The request handler\<close>

record upload =
  filename :: string
  stream :: "8 word list"

record request =
  files :: "(string \<times> upload) list"

record prediction_response = prediction_result +
  image_preview :: string
  original_size :: "nat \<times> nat"
  result_filename :: string
  timestamp :: datetime
  stats :: statistics

datatype json = ErrorJson string | ResultJson prediction_response

type_synonym response = "json \<times> nat"

text \<open>
  The state a request runs in: the module's \<open>prediction_stats\<close>, and a log of the calls
  the handler has made to the decoder and the predictor. The log is not in the module; it
  is kept here to state which calls a request makes.
\<close>

datatype call = Image_open | Image_verify | Predict_image

record world =
  prediction_stats :: statistics
  call_log :: "call list"

definition logged :: "call \<Rightarrow> world \<Rightarrow> world" where
  "logged c w = w\<lparr>call_log := call_log w @ [c]\<rparr>"

definition image_to_base64 :: "env \<Rightarrow> image \<Rightarrow> exn + string" where
  "image_to_base64 env img =
     (case png_base64 env img of
        Inl e \<Rightarrow> Inl e
      | Inr img_str \<Rightarrow> Inr (''data:image/png;base64,'' @ img_str))"

text \<open>The inner \<open>try\<close> of \<open>predict\<close>: open, verify, rewind, open again.\<close>

definition open_upload :: "env \<Rightarrow> upload \<Rightarrow> world \<Rightarrow> (exn + image) \<times> world" where
  "open_upload env file w =
     (case image_open env (stream file) of
        Inl e \<Rightarrow> (Inl e, logged Image_open w)
      | Inr unverified \<Rightarrow>
          (case image_verify env (stream file) of
             Some e \<Rightarrow> (Inl e, logged Image_verify (logged Image_open w))
           | None \<Rightarrow>
               (image_open env (stream file),
                logged Image_open (logged Image_verify (logged Image_open w)))))"

text \<open>Python's truth value of the returned \<open>error\<close>: \<open>None\<close> and the empty string are false.\<close>

fun truthy :: "string option \<Rightarrow> bool" where
  "truthy None = False"
| "truthy (Some s) = (s \<noteq> [])"

text \<open>
  \<open>predict\<close>, the handler of \<open>POST /predict\<close>. \<open>jsonify(body), status\<close> is the pair
  \<open>(body, status)\<close>, with status 200 where the module gives none. \<open>now\<close> is the clock
  reading inside the predictor, \<open>now'\<close> the one of the response's timestamp.
\<close>

definition predict ::
  "env \<Rightarrow> real \<times> real \<times> real \<times> real \<Rightarrow> datetime \<Rightarrow> datetime \<Rightarrow> request \<Rightarrow> world \<Rightarrow>
     response \<times> world" where
  "predict env draw now now' req w =
     (case map_of (files req) ''file'' of
        None \<Rightarrow> ((ErrorJson ''No file uploaded'', 400), w)
      | Some file \<Rightarrow>
          if filename file = [] then ((ErrorJson ''No file selected'', 400), w)
          else
            (case allowed_file (filename file) of
               Inl e \<Rightarrow> ((ErrorJson (str_exn e), 500), w)
             | Inr False \<Rightarrow>
                 ((ErrorJson ''File type not allowed. Please use PNG, JPG, JPEG, GIF, BMP, or TIFF'',
                   400), w)
             | Inr True \<Rightarrow>
                 (case open_upload env file w of
                    (Inl e, w1) \<Rightarrow> ((ErrorJson (''Invalid image file: '' @ str_exn e), 400), w1)
                  | (Inr image0, w1) \<Rightarrow>
                      (case predict_image env draw now image0 (prediction_stats w1) of
                         ((result, error), s') \<Rightarrow>
                           (let w2 = (logged Predict_image w1)\<lparr>prediction_stats := s'\<rparr> in
                            if truthy error then ((ErrorJson (the error), 500), w2)
                            else
                              (case thumbnail env image0 (400, 400) of
                                 Inl e \<Rightarrow> ((ErrorJson (str_exn e), 500), w2)
                               | Inr preview_image \<Rightarrow>
                                   (case image_to_base64 env preview_image of
                                      Inl e \<Rightarrow> ((ErrorJson (str_exn e), 500), w2)
                                    | Inr img_base64 \<Rightarrow>
                                        (case result of
                                           None \<Rightarrow>
                                             ((ErrorJson
                                                 (str_exn (TypeError
                                                   ([CHR 0x27] @ ''NoneType'' @ [CHR 0x27]
                                                    @ '' object does not support item assignment''))),
                                               500), w2)
                                         | Some r \<Rightarrow>
                                             ((ResultJson
                                                 (prediction_result.extend r
                                                    \<lparr>image_preview = img_base64,
                                                     original_size = size_wh image0,
                                                     result_filename = filename file,
                                                     timestamp = now',
                                                     stats = s'\<rparr>),
                                               200), w2)))))))))"

subsection \<open>Invariant and example values\<close>

text \<open>
  The invariant of the statistics: the histogram has the four classes as its keys, in
  order; the total is the sum of the histogram; the count of the day is at most the total.
\<close>

definition stats_inv :: "statistics \<Rightarrow> bool" where
  "stats_inv s =
     (map fst (class_distribution s) = CLASS_NAMES \<and>
      total_predictions s = class_total s \<and>
      predictions_today s \<le> total_predictions s \<and>
      0 \<le> total_predictions s)"

text \<open>
  Concrete values at which the theorems below are instantiated: an environment without a
  model whose decoder accepts every upload as a 2 by 2 image of mode L, one with a model that
  answers with a fixed row of four scores, one whose model raises, an image whose pixel
  data cannot be read, clock readings on two consecutive days, and three uploads.
\<close>

definition grey_image :: image where
  "grey_image =
     \<lparr>pixels = NonRGB Mode_L (\<lambda>x y k. 128), size_wh = (2, 2), load_error = None\<rparr>"

definition demo_env :: env where
  "demo_env =
     \<lparr>model = None,
      softmax = (\<lambda>row. map (\<lambda>v. v / sum_list row) row),
      to_rgb = (\<lambda>m px x y. (128, 128, 128)),
      resample = (\<lambda>old px new. px),
      resample_other = (\<lambda>m old px new. px),
      float32_round = (\<lambda>v. v),
      image_open = (\<lambda>bytes. Inr grey_image),
      image_verify = (\<lambda>bytes. None),
      thumbnail = (\<lambda>img sz. Inr img),
      png_base64 = (\<lambda>img. Inr ''iVBORw0KGgo='')\<rparr>"

definition model_env :: env where
  "model_env = demo_env\<lparr>model := Some (\<lambda>t. Inr (Rank2 [[1, 3, 5, 1]]))\<rparr>"

definition broken_image :: image where
  "broken_image =
     \<lparr>pixels = NonRGB Mode_L (\<lambda>x y k. 0), size_wh = (2, 2),
      load_error = Some (LibraryError ''image file is truncated'')\<rparr>"

definition failing_env :: env where
  "failing_env = demo_env\<lparr>model := Some (\<lambda>t. Inl (LibraryError ''inference failed''))\<rparr>"





definition monday :: datetime where
  "monday = \<lparr>date = 739200, microsecond_of_day = 0\<rparr>"

definition tuesday :: datetime where
  "tuesday = \<lparr>date = 739201, microsecond_of_day = 0\<rparr>"

definition empty_world :: world where
  "empty_world = \<lparr>prediction_stats = initial_stats, call_log = []\<rparr>"

definition text_upload :: request where
  "text_upload = \<lparr>files = [(''file'', \<lparr>filename = ''notes.txt'', stream = [1, 2, 3]\<rparr>)]\<rparr>"

definition unnamed_upload :: request where
  "unnamed_upload = \<lparr>files = [(''file'', \<lparr>filename = [], stream = []\<rparr>)]\<rparr>"

definition bare_upload :: request where
  "bare_upload = \<lparr>files = [(''file'', \<lparr>filename = ''scan'', stream = [1, 2, 3]\<rparr>)]\<rparr>"

section \<open>Properties\<close>

subsection \<open>Statistics\<close>

lemma update_statistics_total:
  "total_predictions (snd (update_statistics now c s)) = total_predictions s + 1"
  by (simp add: update_statistics_def Let_def split: option.splits sum.splits)

lemma sum_list_update:
  "map_of d k = Some v \<Longrightarrow>
   sum_list (map snd (AList.update k (v + 1) d)) = sum_list (map snd d) + (1::int)"
  by (induction d) (auto split: if_splits)

lemma keys_update: "map_of d k = Some v \<Longrightarrow> map fst (AList.update k v' d) = map fst d"
  by (induction d) (auto split: if_splits)

lemma map_of_keys: "k \<in> set (map fst d) \<Longrightarrow> \<exists>v. map_of d k = Some v"
  by (induction d) auto

lemma stats_inv_step:
  assumes "stats_inv s" and "c \<in> set CLASS_NAMES"
  shows "stats_inv (snd (update_statistics now c s))"
proof -
  from assms obtain v where v: "map_of (class_distribution s) c = Some v"
    using map_of_keys[of c "class_distribution s"] by (auto simp: stats_inv_def)
  show ?thesis
    using assms(1) v
    by (auto simp: stats_inv_def update_statistics_def Let_def dict_get_def class_total_def
        sum_list_update keys_update split: option.splits)
qed

lemma stats_inv_calls:
  "stats_inv s \<Longrightarrow> \<forall>(now, c) \<in> set calls. c \<in> set CLASS_NAMES \<Longrightarrow>
   stats_inv (update_calls calls s)"
  by (induction calls s rule: update_calls.induct) (auto simp: stats_inv_step)

lemma stats_inv_initial: "stats_inv initial_stats"
  by (simp add: stats_inv_def initial_stats_def class_total_def CLASS_NAMES_def)

text \<open>
  C4. Every call of \<open>update_statistics\<close>, whatever the class and whether or not the
  histogram update raises, leaves \<open>predictions_today\<close> at 1 when
  \<open>last_prediction_time\<close> was unset or its date is strictly before the date of the call's
  clock reading, and at its old value plus 1 otherwise.
\<close>

theorem update_statistics_predictions_today:
  "predictions_today (snd (update_statistics now c s)) =
     (if last_prediction_time s = None \<or>
         (\<exists>t. last_prediction_time s = Some t \<and> date t < date now)
      then 1 else predictions_today s + 1)"
  by (auto simp add: update_statistics_def Let_def split: option.splits sum.splits)

theorem update_statistics_predictions_today_witness:
  "predictions_today (snd (update_statistics tuesday ''glioma''
      (initial_stats\<lparr>predictions_today := 7, last_prediction_time := Some monday\<rparr>))) = 1 \<and>
   predictions_today (snd (update_statistics tuesday ''glioma''
      (initial_stats\<lparr>predictions_today := 7, last_prediction_time := Some tuesday\<rparr>))) = 8 \<and>
   predictions_today (snd (update_statistics monday ''glioma'' initial_stats)) = 1"
  using update_statistics_predictions_today [of tuesday "''glioma''"
      "initial_stats\<lparr>predictions_today := 7, last_prediction_time := Some monday\<rparr>"]
    update_statistics_predictions_today [of tuesday "''glioma''"
      "initial_stats\<lparr>predictions_today := 7, last_prediction_time := Some tuesday\<rparr>"]
    update_statistics_predictions_today [of monday "''glioma''" initial_stats]
  by (simp add: monday_def tuesday_def initial_stats_def)

text \<open>
  C9. From the initial statistics, after any sequence of \<open>update_statistics\<close> calls whose
  arguments are among the four class names (at any clock readings), the histogram still
  has exactly the four classes, \<open>total_predictions\<close> is the sum of the histogram, and
  \<open>predictions_today\<close> is at most \<open>total_predictions\<close>.
\<close>

theorem statistics_invariant:
  assumes "\<forall>(now, c) \<in> set calls. c \<in> set CLASS_NAMES"
  shows "map fst (class_distribution (update_calls calls initial_stats)) = CLASS_NAMES \<and>
         total_predictions (update_calls calls initial_stats) =
           class_total (update_calls calls initial_stats) \<and>
         predictions_today (update_calls calls initial_stats) \<le>
           total_predictions (update_calls calls initial_stats)"
  using stats_inv_calls [OF stats_inv_initial assms] by (simp add: stats_inv_def)

theorem statistics_invariant_witness:
  "total_predictions
     (update_calls [(monday, ''glioma''), (monday, ''notumor''), (tuesday, ''glioma'')] initial_stats) =
   class_total
     (update_calls [(monday, ''glioma''), (monday, ''notumor''), (tuesday, ''glioma'')] initial_stats) \<and>
   predictions_today
     (update_calls [(monday, ''glioma''), (monday, ''notumor''), (tuesday, ''glioma'')] initial_stats) \<le>
   total_predictions
     (update_calls [(monday, ''glioma''), (monday, ''notumor''), (tuesday, ''glioma'')] initial_stats)"
  using statistics_invariant
    [of "[(monday, ''glioma''), (monday, ''notumor''), (tuesday, ''glioma'')]"]
  by (simp add: CLASS_NAMES_def)

subsection \<open>File names\<close>

lemma lower_allowed: "e \<in> allowed_extensions \<Longrightarrow> lower e = e"
  by (auto simp: allowed_extensions_def lower_def lower_char_def)

lemma rsplit1_decompose:
  assumes "sep \<in> set s"
  shows "s = rev (tl (dropWhile (\<lambda>c. c \<noteq> sep) (rev s))) @
             sep # rev (takeWhile (\<lambda>c. c \<noteq> sep) (rev s))"
proof -
  let ?P = "\<lambda>c. c \<noteq> sep"
  from assms have ne: "dropWhile ?P (rev s) \<noteq> []"
    by simp
  then have hd: "hd (dropWhile ?P (rev s)) = sep"
    using hd_dropWhile[of ?P "rev s"] by simp
  have "rev s = takeWhile ?P (rev s) @ dropWhile ?P (rev s)"
    by simp
  also have "dropWhile ?P (rev s) = sep # tl (dropWhile ?P (rev s))"
    using ne hd by (metis list.collapse)
  finally have "rev (rev s) = rev (takeWhile ?P (rev s) @ sep # tl (dropWhile ?P (rev s)))"
    by simp
  then show ?thesis by simp
qed

lemma suffix_after_last:
  assumes "sep \<notin> set ext"
  shows "rev (takeWhile (\<lambda>c. c \<noteq> sep) (rev (base @ sep # ext))) = ext"
proof -
  have "takeWhile (\<lambda>c. c \<noteq> sep) (rev ext @ sep # rev base) = rev ext"
    using assms by (auto simp add: takeWhile_tail)
  then show ?thesis by simp
qed

lemma takeWhile_no_sep: "sep \<notin> set (rev (takeWhile (\<lambda>c. c \<noteq> sep) xs))"
  using set_takeWhileD[of sep "\<lambda>c. c \<noteq> sep" xs] by auto

text \<open>
  \<open>allowed_file\<close> never raises, and it computes the specification's test: the text after
  the last dot, lowered, is one of the six extensions.
\<close>

lemma allowed_file_refines: "allowed_file fname = Inr (has_allowed_extension fname)"
proof (cases "CHR ''.'' \<in> set fname")
  case False
  then have "\<not> has_allowed_extension fname"
    by (auto simp: has_allowed_extension_def)
  with False show ?thesis by (simp add: allowed_file_def)
next
  case True
  let ?ext = "rev (takeWhile (\<lambda>c. c \<noteq> CHR ''.'') (rev fname))"
  have idx: "list_index (rsplit1 CHR ''.'' fname) 1 = Inr ?ext"
    using True by (simp add: rsplit1_def list_index_def)
  have "has_allowed_extension fname = (lower ?ext \<in> allowed_extensions)"
  proof
    assume "has_allowed_extension fname"
    then obtain base ext e where f: "fname = base @ CHR ''.'' # ext" "CHR ''.'' \<notin> set ext"
      and e: "e \<in> allowed_extensions" "lower ext = lower e"
      by (auto simp: has_allowed_extension_def)
    from f have "?ext = ext"
      using suffix_after_last[of "CHR ''.''" ext base] by simp
    with e show "lower ?ext \<in> allowed_extensions"
      by (simp add: lower_allowed)
  next
    assume a: "lower ?ext \<in> allowed_extensions"
    have "fname = rev (tl (dropWhile (\<lambda>c. c \<noteq> CHR ''.'') (rev fname))) @ CHR ''.'' # ?ext"
      using rsplit1_decompose[OF True] .
    moreover have "CHR ''.'' \<notin> set ?ext"
      by (rule takeWhile_no_sep)
    moreover have "\<exists>e \<in> allowed_extensions. lower ?ext = lower e"
      using a lower_allowed by metis
    ultimately show "has_allowed_extension fname"
      unfolding has_allowed_extension_def by blast
  qed
  with True idx show ?thesis by (simp add: allowed_file_def)
qed

subsection \<open>The request handler: rejected uploads\<close>

text \<open>
  C7. A request without a \<open>file\<close> field is answered with status 400 and the body
  \<open>{"error": "No file uploaded"}\<close>, whatever the libraries, the clock and the random
  draw are; the statistics and the log of decoder and predictor calls are left as they
  were, so neither was called.
\<close>

theorem predict_no_file:
  assumes "map_of (files req) ''file'' = None"
  shows "predict env draw now now' req w = ((ErrorJson ''No file uploaded'', 400), w)"
  using assms by (simp add: predict_def)

theorem predict_no_file_witness:
  "predict demo_env (1/4, 1/4, 1/4, 1/4) monday monday \<lparr>files = []\<rparr> empty_world =
     ((ErrorJson ''No file uploaded'', 400), empty_world)"
  using predict_no_file [of "\<lparr>files = []\<rparr>" demo_env "(1/4, 1/4, 1/4, 1/4)" monday monday empty_world]
  by simp

text \<open>
  C8, as amended. The handler checks for an empty file name before it checks the
  extension. A request that carries a file with a non-empty name whose extension is not
  one of png, jpg, jpeg, gif, bmp, tiff (case ignored) is answered with status 400 and the
  message that the file type is not allowed; the log of decoder calls and the statistics
  are left as they were, so no image was decoded.
\<close>

theorem predict_disallowed_extension:
  assumes "map_of (files req) ''file'' = Some file"
    and "filename file \<noteq> []"
    and "\<not> has_allowed_extension (filename file)"
  shows "predict env draw now now' req w =
    ((ErrorJson ''File type not allowed. Please use PNG, JPG, JPEG, GIF, BMP, or TIFF'', 400), w)"
  using assms by (simp add: predict_def allowed_file_refines)

theorem predict_disallowed_extension_witness:
  "predict demo_env (1/4, 1/4, 1/4, 1/4) monday monday text_upload empty_world =
    ((ErrorJson ''File type not allowed. Please use PNG, JPG, JPEG, GIF, BMP, or TIFF'', 400),
     empty_world)"
proof -
  have "allowed_file ''notes.txt'' = Inr False"
    by (simp add: allowed_file_def rsplit1_def list_index_def lower_def lower_char_def
        allowed_extensions_def)
  then have "\<not> has_allowed_extension ''notes.txt''"
    by (simp add: allowed_file_refines)
  then show ?thesis
    using predict_disallowed_extension
      [of text_upload "\<lparr>filename = ''notes.txt'', stream = [1, 2, 3]\<rparr>"
          demo_env "(1/4, 1/4, 1/4, 1/4)" monday monday empty_world]
    by (simp add: text_upload_def)
qed

text \<open>
  C8, as stated, fails for the empty file name: it has no allowed extension, and the
  handler answers with the message that no file was selected, which does not mention a
  file type.
\<close>

theorem predict_empty_filename_counterexample:
  "map_of (files unnamed_upload) ''file'' = Some \<lparr>filename = [], stream = []\<rparr> \<and>
   \<not> has_allowed_extension [] \<and>
   predict demo_env (1/4, 1/4, 1/4, 1/4) monday monday unnamed_upload empty_world =
     ((ErrorJson ''No file selected'', 400), empty_world) \<and>
   fst (predict demo_env (1/4, 1/4, 1/4, 1/4) monday monday unnamed_upload empty_world) \<noteq>
     (ErrorJson ''File type not allowed. Please use PNG, JPG, JPEG, GIF, BMP, or TIFF'', 400)"
  by (simp add: unnamed_upload_def predict_def has_allowed_extension_def)

text \<open>
  C10. For a file name without a dot \<open>allowed_file\<close> returns false, and an upload with
  such a name, when the name is not empty, is answered with status 400 and the file-type
  message whatever the decoder would make of the content.
\<close>

theorem predict_no_dot:
  assumes "CHR ''.'' \<notin> set fname"
  shows "allowed_file fname = Inr False \<and>
    (\<forall>env draw now now' req file w.
       map_of (files req) ''file'' = Some file \<and> filename file = fname \<and> fname \<noteq> [] \<longrightarrow>
       predict env draw now now' req w =
         ((ErrorJson ''File type not allowed. Please use PNG, JPG, JPEG, GIF, BMP, or TIFF'', 400),
          w))"
  using assms by (simp add: predict_def allowed_file_def)

theorem predict_no_dot_witness:
  "allowed_file ''scan'' = Inr False \<and>
   image_open demo_env [1, 2, 3] = Inr grey_image \<and>
   predict demo_env (1/4, 1/4, 1/4, 1/4) monday monday bare_upload empty_world =
     ((ErrorJson ''File type not allowed. Please use PNG, JPG, JPEG, GIF, BMP, or TIFF'', 400),
      empty_world)"
  using predict_no_dot [of "''scan''"]
  by (simp add: bare_upload_def demo_env_def)

subsection \<open>The predictor\<close>

lemma predict_image_success_total:
  assumes "predict_image env draw now image0 s = ((Some r, err), s')"
  shows "total_predictions s' = total_predictions s + 1"
proof -
  from assms obtain cls u where
    "update_statistics now cls s = (Inr u, s')"
    by (auto simp: predict_image_def split: sum.splits prod.splits)
  then show ?thesis using update_statistics_total[of now cls s] by simp
qed

text \<open>
  C5. A run of N predictions, one after the other, all of which return a result, leaves
  \<open>total_predictions\<close> at its value before the run plus N.
\<close>

theorem successful_predictions_total:
  assumes "predict_images env calls s = (outs, s')"
    and "\<forall>out \<in> set outs. fst out \<noteq> None"
  shows "total_predictions s' = total_predictions s + int (length calls)"
  using assms
proof (induction calls arbitrary: s outs s')
  case Nil
  then show ?case by simp
next
  case (Cons call calls)
  obtain draw now image0 where call: "call = (draw, now, image0)" by (cases call) auto
  obtain out s1 where one: "predict_image env draw now image0 s = (out, s1)"
    by (cases "predict_image env draw now image0 s") auto
  obtain outs1 s2 where rest: "predict_images env calls s1 = (outs1, s2)"
    by (cases "predict_images env calls s1") auto
  from Cons.prems(1) call one rest have eq: "outs = out # outs1" "s' = s2" by auto
  with Cons.prems(2) obtain r err where out: "out = (Some r, err)" by (cases out) auto
  have "total_predictions s1 = total_predictions s + 1"
    using predict_image_success_total one out by blast
  moreover have "total_predictions s2 = total_predictions s1 + int (length calls)"
    using Cons.IH[OF rest] Cons.prems(2) eq by simp
  ultimately show ?case using eq by simp
qed

theorem successful_predictions_total_witness:
  "map (\<lambda>out. fst out \<noteq> None)
     (fst (predict_images demo_env
        [((1/10, 1/5, 3/5, 1/10), monday, grey_image), ((1/2, 1/4, 1/8, 1/8), tuesday, grey_image)]
        initial_stats)) = [True, True] \<and>
   total_predictions (snd (predict_images demo_env
        [((1/10, 1/5, 3/5, 1/10), monday, grey_image), ((1/2, 1/4, 1/8, 1/8), tuesday, grey_image)]
        initial_stats)) = 2"
proof -
  let ?calls = "[((1/10, 1/5, 3/5, 1/10), monday, grey_image),
                 ((1/2, 1/4, 1/8, 1/8), tuesday, grey_image)]"
  let ?run = "predict_images demo_env ?calls initial_stats"
  have ok: "map (\<lambda>out. fst out \<noteq> None) (fst ?run) = [True, True]"
    by (simp add: predict_image_def compute_probs_def dirichlet_vector_def demo_env_def select_top_def
        list_index_def CLASS_NAMES_def update_statistics_def initial_stats_def dict_get_def
        build_result_def CLASS_DESCRIPTIONS_def Let_def split: prod.splits)
  then have all: "\<forall>out \<in> set (fst ?run). fst out \<noteq> None"
    by (cases "fst ?run"; cases "tl (fst ?run)") auto
  have "?run = (fst ?run, snd ?run)"
    by simp
  from successful_predictions_total [OF this all]
  have "total_predictions (snd ?run) = 2"
    by (simp add: initial_stats_def)
  with ok show ?thesis by simp
qed

lemma predict_image_exclusive:
  assumes "predict_image env draw now image0 s = ((result, error), s')"
  shows "(result = None) \<noteq> (error = None)"
  using assms by (auto simp: predict_image_def split: sum.splits prod.splits)

lemma predict_image_preprocess_raises:
  assumes "model env = Some f" "preprocess_for_inference env image0 = Inl e"
  shows "predict_image env draw now image0 s = ((None, Some (str_exn e)), s)"
  using assms by (simp add: predict_image_def compute_probs_def)

lemma predict_image_model_raises:
  assumes "model env = Some f" "preprocess_for_inference env image0 = Inr t" "f t = Inl e"
  shows "predict_image env draw now image0 s = ((None, Some (str_exn e)), s)"
  using assms by (simp add: predict_image_def compute_probs_def)

lemma mode_name_not_RGB: "mode_name m \<noteq> ''RGB''"
  by (cases m) simp_all

lemma first_step_RGB:
  assumes "load_error image0 = None"
  shows "\<exists>image1 px1.
     (if mode image0 \<noteq> ''RGB'' then convert_RGB env image0 else Inr image0) = Inr image1 \<and>
     pixels image1 = RGB px1 \<and> load_error image1 = None"
proof (cases "pixels image0")
  case (RGB px)
  with assms show ?thesis by (simp add: mode_def)
next
  case (NonRGB m px)
  with assms show ?thesis
    by (simp add: mode_def mode_name_not_RGB convert_RGB_def load_def)
qed







text \<open>
  Without the conversion the array of an image of a one-band mode has no third axis.
\<close>

lemma np_array_float32_single_band:
  assumes "pixels img = NonRGB m px" and "load_error img = None" and "bands m = 1"
  shows "\<exists>a. np_array_float32 img = Inr a \<and>
     has_shape [snd (size_wh img), fst (size_wh img)] (items a)"
  using assms by (simp add: np_array_float32_def load_def)

lemma preprocess_returns:
  "load_error image0 = None \<Longrightarrow> \<exists>t. preprocess_for_inference env image0 = Inr t"
  using first_step_RGB[of image0 env]
  by (auto simp: preprocess_for_inference_def resize_def np_array_float32_def load_def)

text \<open>
  C6. Of the pair \<open>(result, error)\<close> that \<open>predict_image\<close> returns exactly one
  component is set. With a model loaded, an exception raised by the preprocessing or by
  the model's \<open>predict\<close> comes back as the error string \<open>str(e)\<close>, with no result and
  with the statistics untouched.
\<close>

theorem predict_image_result_or_error:
  "(predict_image env draw now image0 s = ((result, error), s') \<longrightarrow>
      (result = None) \<noteq> (error = None)) \<and>
   (model env = Some f \<and> preprocess_for_inference env image0 = Inl e \<longrightarrow>
      predict_image env draw now image0 s = ((None, Some (str_exn e)), s)) \<and>
   (model env = Some f \<and> preprocess_for_inference env image0 = Inr t \<and> f t = Inl e \<longrightarrow>
      predict_image env draw now image0 s = ((None, Some (str_exn e)), s))"
  using predict_image_exclusive [of env draw now image0 s result error s']
    predict_image_preprocess_raises [of env f image0 e draw now s]
    predict_image_model_raises [of env f image0 t e draw now s]
  by blast

theorem predict_image_result_or_error_witness:
  "predict_image failing_env (1/4, 1/4, 1/4, 1/4) monday broken_image initial_stats =
     ((None, Some ''image file is truncated''), initial_stats) \<and>
   (\<exists>t. preprocess_for_inference failing_env grey_image = Inr t) \<and>
   predict_image failing_env (1/4, 1/4, 1/4, 1/4) monday grey_image initial_stats =
     ((None, Some ''inference failed''), initial_stats) \<and>
   fst (fst (predict_image demo_env (1/4, 1/4, 1/4, 1/4) monday grey_image initial_stats)) \<noteq> None \<and>
   snd (fst (predict_image demo_env (1/4, 1/4, 1/4, 1/4) monday grey_image initial_stats)) = None"
proof -
  let ?f = "\<lambda>t :: ndarray. (Inl (LibraryError ''inference failed'') :: exn + predictions)"
  have m: "model failing_env = Some ?f"
    by (simp add: failing_env_def)
  have pre: "preprocess_for_inference failing_env broken_image =
      Inl (LibraryError ''image file is truncated'')"
    by (simp add: preprocess_for_inference_def broken_image_def convert_RGB_def load_def
        mode_def)
  obtain t where t: "preprocess_for_inference failing_env grey_image = Inr t"
    using preprocess_returns [of grey_image failing_env]
    by (auto simp: grey_image_def)
  let ?ok = "predict_image demo_env (1/4, 1/4, 1/4, 1/4) monday grey_image initial_stats"
  have a: "predict_image failing_env (1/4, 1/4, 1/4, 1/4) monday broken_image initial_stats =
      ((None, Some ''image file is truncated''), initial_stats)"
    using predict_image_result_or_error
      [of failing_env "(1/4, 1/4, 1/4, 1/4)" monday broken_image initial_stats
          None None initial_stats ?f "LibraryError ''image file is truncated''" t] m pre
    by simp
  have b: "predict_image failing_env (1/4, 1/4, 1/4, 1/4) monday grey_image initial_stats =
      ((None, Some ''inference failed''), initial_stats)"
    using predict_image_result_or_error
      [of failing_env "(1/4, 1/4, 1/4, 1/4)" monday grey_image initial_stats
          None None initial_stats ?f "LibraryError ''inference failed''" t] m t
    by simp
  have c: "fst (fst ?ok) \<noteq> None"
    by (simp add: predict_image_def compute_probs_def dirichlet_vector_def demo_env_def select_top_def
        list_index_def CLASS_NAMES_def update_statistics_def initial_stats_def dict_get_def
        build_result_def CLASS_DESCRIPTIONS_def Let_def)
  have "(fst (fst ?ok) = None) \<noteq> (snd (fst ?ok) = None)"
    using predict_image_result_or_error
      [of demo_env "(1/4, 1/4, 1/4, 1/4)" monday grey_image initial_stats
          "fst (fst ?ok)" "snd (fst ?ok)" "snd ?ok"]
    by simp
  with c have d: "snd (fst ?ok) = None"
    by auto
  from a b c d t show ?thesis by blast
qed

text \<open>
  A model result of rank 1 never yields a prediction: \<open>predictions[0]\<close> is then a scalar
  (or raises on an empty array), and indexing the scalar raises.
\<close>

lemma predict_image_rank1_fails:
  assumes "model env = Some f" and "preprocess_for_inference env image0 = Inr t"
    and "f t = Inr (Rank1 xs)"
  shows "\<exists>msg. predict_image env draw now image0 s = ((None, Some msg), s)"
  using assms
  by (cases xs)
    (simp_all add: predict_image_def compute_probs_def np_first_def select_top_def
      list_index_def CLASS_NAMES_def)

lemma index_of_less: "x \<in> set ys \<Longrightarrow> index_of x ys < length ys"
  by (induction ys) auto

lemma index_of_nth: "x \<in> set ys \<Longrightarrow> ys ! index_of x ys = x"
  by (induction ys) auto

lemma index_of_take:
  "index_of x ys < n \<Longrightarrow> x \<in> set ys \<Longrightarrow> index_of x (take n ys) = index_of x ys \<and> x \<in> set (take n ys)"
proof (induction ys arbitrary: n)
  case Nil then show ?case by simp
next
  case (Cons y ys)
  then show ?case by (cases n) (auto split: if_splits)
qed

lemma fold_max_Max: "fold max xs (x::real) = Max (set (x # xs))"
  by (rule Max.set_eq_fold[symmetric])

lemma argmax_take:
  assumes "np_argmax (Vector v) = Inr i" "i < n"
  shows "np_argmax (Vector (take n v)) = Inr i"
proof (cases v)
  case Nil with assms show ?thesis by simp
next
  case (Cons x xs)
  let ?m = "Max (set v)"
  have i: "i = index_of ?m v" using assms(1) Cons by (simp add: fold_max_Max)
  have m_in: "?m \<in> set v" using Cons Max_in[of "set v"] by simp
  from index_of_take[of ?m v n] i assms(2) m_in
  have t: "index_of ?m (take n v) = i" "?m \<in> set (take n v)" by auto
  have "Max (set (take n v)) = ?m"
  proof (rule Max_eqI)
    show "finite (set (take n v))" by simp
    show "\<And>y. y \<in> set (take n v) \<Longrightarrow> y \<le> ?m" using set_take_subset[of n v] by (auto intro: Max_ge)
    show "?m \<in> set (take n v)" by (rule t(2))
  qed
  moreover obtain y ys where tk: "take n v = y # ys" using t(2) by (cases "take n v") auto
  ultimately show ?thesis using t(1) by (simp add: fold_max_Max)
qed

lemma build_probabilities_classes:
  assumes "build_probabilities ps (enumerate 0 CLASS_NAMES) = Inr entries"
  shows "\<exists>v. ps = Vector v \<and> 4 \<le> length v \<and> map fst entries = CLASS_NAMES \<and>
     map (\<lambda>e. probability (snd e)) entries = take 4 v"
proof (cases ps)
  case (Scalar x)
  with assms show ?thesis by (simp add: CLASS_NAMES_def)
next
  case (Vector v)
  from assms Vector have len: "3 < length v"
    by (auto simp: CLASS_NAMES_def split: if_splits sum.splits)
  then obtain a b c d rest where v: "v = a # b # c # d # rest"
    by (cases v; cases "tl v"; cases "tl (tl v)"; cases "tl (tl (tl v))") auto
  from assms Vector v show ?thesis
    by (auto simp: CLASS_NAMES_def CLASS_DESCRIPTIONS_def dict_get_def split: if_splits sum.splits)
qed

lemma predict_image_top:
  assumes "predict_image env draw now image0 s = ((Some r, err), s')"
  shows "\<exists>v i. compute_probs env draw image0 = Inr (Vector v) \<and>
     np_argmax (Vector v) = Inr i \<and> i < 4 \<and>
     predicted_class r = CLASS_NAMES ! i \<and> confidence r = v ! i \<and>
     map fst (all_probabilities r) = CLASS_NAMES \<and>
     map (\<lambda>e. probability (snd e)) (all_probabilities r) = take 4 v \<and>
     np_argmax (Vector (take 4 v)) = Inr i \<and>
     confidence r = take 4 v ! i"
proof -
  from assms obtain ps idx cls conf where
    cp: "compute_probs env draw image0 = Inr ps" and
    st: "select_top ps = Inr (idx, cls, conf)" and
    br: "build_result ps cls conf = Inr r"
    by (auto simp: predict_image_def split: sum.splits prod.splits)
  from br obtain entries where
    bp: "build_probabilities ps (enumerate 0 CLASS_NAMES) = Inr entries" and
    r: "predicted_class r = cls" "confidence r = conf" "all_probabilities r = entries"
    by (auto simp: build_result_def split: sum.splits)
  from build_probabilities_classes[OF bp] obtain v where
    v: "ps = Vector v" "4 \<le> length v" "map fst entries = CLASS_NAMES"
       "map (\<lambda>e. probability (snd e)) entries = take 4 v" by blast
  from st v(1) have am: "np_argmax (Vector v) = Inr idx" and
    idx: "idx < 4" "cls = CLASS_NAMES ! idx" and conf: "conf = v ! idx"
    by (auto simp: select_top_def list_index_def CLASS_NAMES_def split: sum.splits if_splits)
  have "np_argmax (Vector (take 4 v)) = Inr idx" using argmax_take[OF am idx(1)] .
  then show ?thesis using cp v r am idx conf by auto
qed

lemma index_of_first: "j < index_of x ys \<Longrightarrow> ys ! j \<noteq> x"
proof (induction ys arbitrary: j)
  case Nil
  then show ?case by simp
next
  case (Cons y ys)
  then show ?case by (cases j) (auto split: if_splits)
qed

text \<open>
  \<open>np_argmax\<close> returns the first index of a greatest element: no element is greater than
  the one at the index, and every element before it is smaller.
\<close>

lemma np_argmax_first_max:
  assumes "np_argmax (Vector v) = Inr i"
  shows "i < length v \<and> (\<forall>j < length v. v ! j \<le> v ! i) \<and> (\<forall>j < i. v ! j < v ! i)"
proof (cases v)
  case Nil
  with assms show ?thesis by simp
next
  case (Cons x xs)
  let ?m = "Max (set v)"
  have i: "i = index_of ?m v"
    using assms Cons by (simp add: fold_max_Max)
  have m_in: "?m \<in> set v"
    using Cons Max_in[of "set v"] by simp
  have len: "i < length v"
    using i m_in by (simp add: index_of_less)
  have at: "v ! i = ?m"
    using i m_in by (simp add: index_of_nth)
  have le: "v ! j \<le> ?m" if "j < length v" for j
    using that by simp
  have lt: "v ! j < ?m" if "j < i" for j
  proof -
    have "v ! j \<noteq> ?m"
      using that i index_of_first[of j ?m v] by simp
    moreover have "v ! j \<le> ?m"
      using that len le by simp
    ultimately show ?thesis by simp
  qed
  show ?thesis
    using len at le lt by simp
qed

text \<open>
  C1. When \<open>predict_image\<close> returns a result, the result lists one probability for each
  of the four classes, in the order of \<open>CLASS_NAMES\<close>. There is an index \<open>i\<close> below 4,
  the one \<open>np.argmax\<close> gives for these four probabilities, such that no listed
  probability is greater than the one at \<open>i\<close> and every one listed before \<open>i\<close> is
  smaller; the predicted class is the class name at \<open>i\<close> and the confidence is the
  probability listed at \<open>i\<close>.
\<close>

theorem predict_image_argmax:
  assumes "predict_image env draw now image0 s = ((Some r, err), s')"
  shows "\<exists>i. map fst (all_probabilities r) = CLASS_NAMES \<and>
     length (reported_probabilities r) = 4 \<and>
     i < 4 \<and>
     (\<forall>j < 4. reported_probabilities r ! j \<le> reported_probabilities r ! i) \<and>
     (\<forall>j < i. reported_probabilities r ! j < reported_probabilities r ! i) \<and>
     np_argmax (Vector (reported_probabilities r)) = Inr i \<and>
     list_index CLASS_NAMES i = Inr (predicted_class r) \<and>
     predicted_class r = CLASS_NAMES ! i \<and>
     confidence r = reported_probabilities r ! i \<and>
     confidence r = probability (snd (all_probabilities r ! i))"
proof -
  let ?p = "reported_probabilities r"
  from predict_image_top [OF assms] obtain v i where
    i: "i < 4" "predicted_class r = CLASS_NAMES ! i" and
    names: "map fst (all_probabilities r) = CLASS_NAMES" and
    ps: "?p = take 4 v" and
    am: "np_argmax (Vector (take 4 v)) = Inr i" and
    conf: "confidence r = take 4 v ! i"
    unfolding reported_probabilities_def by blast
  have len: "length (all_probabilities r) = 4"
    using arg_cong [OF names, of length] by (simp add: CLASS_NAMES_def)
  then have lenp: "length ?p = 4"
    by (simp add: reported_probabilities_def)
  have am': "np_argmax (Vector ?p) = Inr i"
    using am ps by simp
  from np_argmax_first_max [OF am'] lenp
  have great: "\<forall>j < 4. ?p ! j \<le> ?p ! i" and first: "\<forall>j < i. ?p ! j < ?p ! i"
    by simp_all
  have conf': "confidence r = ?p ! i"
    using conf ps by simp
  have "?p ! i = probability (snd (all_probabilities r ! i))"
    using i(1) len by (simp add: reported_probabilities_def)
  with conf' have conf'': "confidence r = probability (snd (all_probabilities r ! i))"
    by simp
  have cls: "list_index CLASS_NAMES i = Inr (predicted_class r)"
    using i by (simp add: list_index_def CLASS_NAMES_def)
  show ?thesis
    using names lenp i great first am' cls conf' conf'' by blast
qed

theorem predict_image_argmax_witness:
  "\<exists>r err s'. predict_image model_env (1/4, 1/4, 1/4, 1/4) monday grey_image initial_stats =
       ((Some r, err), s') \<and>
     reported_probabilities r = [1/10, 3/10, 1/2, 1/10] \<and>
     predicted_class r = ''notumor'' \<and> confidence r = 1/2 \<and>
     np_argmax (Vector (reported_probabilities r)) = Inr 2"
proof -
  obtain t where t: "preprocess_for_inference model_env grey_image = Inr t"
    using preprocess_returns [of grey_image model_env]
    by (auto simp: grey_image_def)
  let ?run = "predict_image model_env (1/4, 1/4, 1/4, 1/4) monday grey_image initial_stats"
  have cp: "compute_probs model_env (1/4, 1/4, 1/4, 1/4) grey_image =
      Inr (Vector [1/10, 3/10, 1/2, 1/10])"
    using t by (simp add: compute_probs_def model_env_def demo_env_def np_first_def)
  obtain r where r: "fst (fst ?run) = Some r"
    and vals: "reported_probabilities r = [1/10, 3/10, 1/2, 1/10]"
      "predicted_class r = ''notumor''" "confidence r = 1/2"
    using cp
    by (simp add: predict_image_def select_top_def list_index_def CLASS_NAMES_def
        update_statistics_def initial_stats_def dict_get_def build_result_def
        CLASS_DESCRIPTIONS_def Let_def reported_probabilities_def)
  have run: "?run = ((Some r, snd (fst ?run)), snd ?run)"
    using r by (metis prod.collapse)
  from predict_image_argmax [OF run] obtain i where
    "np_argmax (Vector (reported_probabilities r)) = Inr i"
    "list_index CLASS_NAMES i = Inr (predicted_class r)"
    by blast
  moreover have "np_argmax (Vector [1/10, 3/10, 1/2, 1/10 :: real]) = Inr 2"
    by simp
  ultimately have top: "np_argmax (Vector (reported_probabilities r)) = Inr 2"
    using vals(1) by simp
  show ?thesis
    apply (rule exI [where x = r])
    apply (rule exI [where x = "snd (fst ?run)"])
    apply (rule exI [where x = "snd ?run"])
    apply (intro conjI)
        apply (rule run)
       apply (rule vals(1))
      apply (rule vals(2))
     apply (rule vals(3))
    apply (rule top)
    done
qed

subsection \<open>The sum of the reported probabilities\<close>







subsection \<open>The preprocessor\<close>



end
